theory Spec2Isabelle
  imports Complex_Main
begin

section \<open>JavaScript numbers\<close>

text \<open>
  The component computes with JavaScript numbers. They are modelled as exact reals: the
  rounding of IEEE doubles is not part of the model. A non-finite result (a division by
  zero gives \<open>Infinity\<close> or \<open>NaN\<close>) is the value \<open>None\<close>, and it is absorbing, as
  \<open>Infinity\<close> and \<open>NaN\<close> are under multiplication by a finite number.
\<close>

text \<open>\<open>Math.trunc\<close>: the integer part, towards zero.\<close>

definition Math_trunc :: "real \<Rightarrow> int" where
  "Math_trunc x = (if 0 \<le> x then \<lfloor>x\<rfloor> else \<lceil>x\<rceil>)"

text \<open>\<open>Math.round\<close>: the nearest integer, a half going up.\<close>

definition Math_round :: "real \<Rightarrow> int" where
  "Math_round x = \<lfloor>x + 1 / 2\<rfloor>"

text \<open>\<open>a / b\<close> and \<open>q * x\<close> on numbers that may be non-finite.\<close>

definition js_div :: "real \<Rightarrow> real \<Rightarrow> real option" where
  "js_div a b = (if b = 0 then None else Some (a / b))"

definition js_mul :: "real option \<Rightarrow> real \<Rightarrow> real option" where
  "js_mul q x = (case q of None \<Rightarrow> None | Some v \<Rightarrow> Some (v * x))"

section \<open>The component's inputs\<close>

text \<open>
  \<open>VoiceVisualizerProps\<close>, the fields the effects and handlers read. The class names and
  the flags that only choose markup are left out.
\<close>

record props =
  width :: string
  speed :: real
  backgroundColor :: string
  mainBarColor :: string
  secondaryBarColor :: string
  barWidth :: real
  gap :: real
  rounded :: real
  animateCurrentPick :: bool
  fullscreen :: bool
  onlyRecording :: bool
  isDefaultUIShown :: bool
  isProgressIndicatorShown :: bool
  isProgressIndicatorTimeShown :: bool
  isProgressIndicatorOnHoverShown :: bool
  isProgressIndicatorTimeOnHoverShown :: bool

text \<open>The defaults of the destructuring pattern (lines 100--129).\<close>

definition default_props :: props where
  "default_props =
     \<lparr>width = ''100%'', speed = 3, backgroundColor = ''transparent'',
      mainBarColor = ''#FFFFFF'', secondaryBarColor = ''#5e5e5e'', barWidth = 2, gap = 1,
      rounded = 5, animateCurrentPick = True, fullscreen = False, onlyRecording = False,
      isDefaultUIShown = True, isProgressIndicatorShown = True,
      isProgressIndicatorTimeShown = True,
      isProgressIndicatorOnHoverShown = True, isProgressIndicatorTimeOnHoverShown = True\<rparr>"

text \<open>
  \<open>controls\<close>, the object of the recording hook: \<open>audioData\<close> is a byte array (only its
  length is read here), \<open>bufferFromRecordedBlob\<close> is the decoded recording or \<open>null\<close>,
  given by its channel 0.
\<close>

record controls =
  audioData :: "nat list"
  isRecordingInProgress :: bool
  duration :: real
  currentAudioTime :: real
  bufferFromRecordedBlob :: "real list option"
  isAvailableRecordedAudio :: bool
  isPausedRecording :: bool
  isProcessingRecordedAudio :: bool
  isCleared :: bool

section \<open>Calls to helpers and collaborators\<close>

text \<open>
  The helpers (\<open>drawByLiveStream\<close>, \<open>drawByBlob\<close>, \<open>initialCanvasSetup\<close>), the worker hook's
  \<open>run\<close> and the setters of the recording hook are imported by the component. A call to
  one of them is recorded with its arguments, in the order the object literal of the
  source lists them; the type of a bar, \<open>BarsData\<close>, is the parameter \<open>'b\<close>.
\<close>

text \<open>
  \<open>GetBarsDataParams\<close>, the argument of \<open>run\<close>: \<open>bufferData\<close>, \<open>height\<close>, \<open>width\<close>,
  \<open>barWidth\<close> and \<open>gap\<close>, in this order.
\<close>

datatype request = Request "real list" int int int int

fun requestWidth :: "request \<Rightarrow> int" where
  "requestWidth (Request _ _ w _ _) = w"

datatype 'b call =
    DrawByLiveStream "nat list" int bool bool string string string int real bool bool
  | DrawByBlob "'b list" int int string string string real real real
  | InitialCanvasSetup string
  | Run request
  | ClearCanvas
  | SetCurrentAudioTime real
  | SetIsProcessingRecordedAudio bool

text \<open>The bar sequences that a list of calls hands to \<open>drawByBlob\<close>, in order.\<close>

fun drawnBars :: "'b call list \<Rightarrow> 'b list list" where
  "drawnBars [] = []"
| "drawnBars (DrawByBlob bars _ _ _ _ _ _ _ _ # cs) = bars # drawnBars cs"
| "drawnBars (_ # cs) = drawnBars cs"

text \<open>The requests that a list of calls hands to \<open>run\<close>, in order.\<close>

fun submitted :: "'b call list \<Rightarrow> request list" where
  "submitted [] = []"
| "submitted (Run r # cs) = r # submitted cs"
| "submitted (_ # cs) = submitted cs"

section \<open>The component's state\<close>

text \<open>
  The forwarded \<open>ref\<close> of the audio element: the parent passes none (\<open>ref\<close> is \<open>null\<close>), or
  it passes a ref object, whose \<open>current\<close> is the audio element, given by its
  \<open>currentTime\<close>, while the element is mounted.
\<close>

datatype audio_ref = NoRef | AudioRef "real option"

text \<open>
  One record holds what a render of the component sees: its props and controls, the
  \<open>useState\<close> cells, the refs, the result cell of the worker hook, the part of the
  document it reads, and the calls made so far. \<open>canvasRef\<close> says whether the canvas is
  mounted, \<open>canvasContainerRef\<close> is the container's \<open>clientWidth\<close> and \<open>clientHeight\<close> when
  it is mounted, \<open>audioRef\<close> is the forwarded ref. \<open>renderedCanvasRef\<close> is the value of
  \<open>canvasRef.current\<close> that the last render read for its dependency list: the first
  render reads \<open>null\<close>, since the canvas is mounted after it.
  \<open>inFlight\<close> is the request the worker hook is computing, if any, and
  \<open>debouncePending\<close> says that \<open>debouncedOnResize\<close> was called and its timer runs.
  The refs \<open>picksRef\<close>, \<open>indexRef\<close> and \<open>index2Ref\<close> are only handed to
  \<open>drawByLiveStream\<close>, which owns their contents, and are not modelled.
\<close>

record 'b vv =
  props :: props
  controls :: controls
  hoveredOffsetX :: real
  canvasCurrentWidth :: int
  canvasCurrentHeight :: int
  canvasWidth :: int
  isRecordedCanvasHovered :: bool
  screenWidth :: int
  isResizing :: bool
  isProcessingAudio :: bool
  canvasRef :: bool
  renderedCanvasRef :: bool
  canvasContainerRef :: "(int \<times> int) option"
  audioRef :: audio_ref
  indexSpeedRef :: int
  barsData :: "'b list"
  inFlight :: "request option"
  debouncePending :: bool
  devicePixelRatio :: real
  innerWidth :: int
  calls :: "'b call list"

subsection \<open>Values derived in every render (lines 143--165)\<close>

definition isMobile :: "'b vv \<Rightarrow> bool" where
  "isMobile s = (screenWidth s < 768)"

definition formattedSpeed :: "'b vv \<Rightarrow> int" where
  "formattedSpeed s = Math_trunc (speed (props s))"

definition formattedGap :: "'b vv \<Rightarrow> int" where
  "formattedGap s = Math_trunc (gap (props s))"

definition formattedBarWidth :: "'b vv \<Rightarrow> int" where
  "formattedBarWidth s =
     Math_trunc (if isMobile s \<and> formattedGap s > 0 then barWidth (props s) + 1
                 else barWidth (props s))"

definition unit :: "'b vv \<Rightarrow> int" where
  "unit s = formattedBarWidth s + formattedGap s * formattedBarWidth s"

section \<open>Effects\<close>

text \<open>
  An effect is a function on the state of the render it runs in. A setter of a
  \<open>useState\<close> cell is written as the update of the cell: no effect of the same commit
  reads a cell that an earlier one sets.
\<close>

subsection \<open>The resize listener (lines 167--184)\<close>

text \<open>
  Modelled from the spec: \<open>useDebounce\<close> is not among the sources; by section 4.5 it is a
  trailing-edge debounce, so a call of \<open>debouncedOnResize\<close> arms a timer, and \<open>onResize\<close>
  runs once when the timer elapses.
\<close>

definition debouncedOnResize :: "'b vv \<Rightarrow> 'b vv" where
  "debouncedOnResize s = s\<lparr>debouncePending := True\<rparr>"

text \<open>
  The effect calls \<open>debouncedOnResize\<close> and registers \<open>handleResize\<close> for the window's
  \<open>resize\<close> event.
\<close>

definition resizeListenerEffect :: "'b vv \<Rightarrow> 'b vv" where
  "resizeListenerEffect s = debouncedOnResize s"

definition handleResize :: "'b vv \<Rightarrow> 'b vv" where
  "handleResize s =
     (if isAvailableRecordedAudio (controls s)
      then debouncedOnResize (s\<lparr>isProcessingAudio := True, isResizing := True\<rparr>)
      else s)"

subsection \<open>The live stream (lines 186--223)\<close>

definition liveStreamEffect :: "'b vv \<Rightarrow> 'b vv" where
  "liveStreamEffect s =
     (if \<not> canvasRef s then s
      else
        let s1 =
          (if indexSpeedRef s \<ge> formattedSpeed s \<or> audioData (controls s) = []
           then s\<lparr>indexSpeedRef := 0,
                  calls := calls s @
                    [DrawByLiveStream (audioData (controls s)) (unit s)
                       (isRecordingInProgress (controls s)) (isPausedRecording (controls s))
                       (backgroundColor (props s)) (mainBarColor (props s))
                       (secondaryBarColor (props s)) (formattedBarWidth s)
                       (rounded (props s)) (animateCurrentPick (props s))
                       (fullscreen (props s))]\<rparr>
           else s)
        in s1\<lparr>indexSpeedRef := indexSpeedRef s1 + 1\<rparr>)"

subsection \<open>The extraction request (lines 250--295)\<close>

text \<open>
  Modelled from the spec: \<open>useWebWorker\<close> is not among the sources; by section 4.2
  submitting a request supersedes the one in flight, and the result that lands is the one
  of the last request submitted.
\<close>

definition run :: "request \<Rightarrow> 'b vv \<Rightarrow> 'b vv" where
  "run r s = s\<lparr>inFlight := Some r, calls := calls s @ [Run r]\<rparr>"

text \<open>The effect that submits the decoded recording with the geometry of its render.\<close>

definition extractionEffect :: "'b vv \<Rightarrow> 'b vv" where
  "extractionEffect s =
     (case bufferFromRecordedBlob (controls s) of
        None \<Rightarrow> s
      | Some bufferData \<Rightarrow>
          if \<not> canvasRef s \<or> isRecordingInProgress (controls s) then s
          else if onlyRecording (props s) then s\<lparr>calls := calls s @ [ClearCanvas]\<rparr>
          else run (Request bufferData (canvasCurrentHeight s) (canvasWidth s)
                      (formattedBarWidth s) (formattedGap s)) s)"

subsection \<open>The static renderer (lines 297--336)\<close>

definition staticRenderEffect :: "'b vv \<Rightarrow> 'b vv" where
  "staticRenderEffect s =
     (if onlyRecording (props s) \<or> barsData s = [] \<or> \<not> canvasRef s \<or> isResizing s then s
      else if isCleared (controls s) then s\<lparr>barsData := []\<rparr>
      else s\<lparr>isProcessingAudio := False,
             calls := calls s @
               [DrawByBlob (barsData s) (formattedBarWidth s) (formattedGap s)
                  (backgroundColor (props s)) (mainBarColor (props s))
                  (secondaryBarColor (props s)) (currentAudioTime (controls s))
                  (rounded (props s)) (duration (controls s)),
                SetIsProcessingRecordedAudio False]\<rparr>)"

subsection \<open>The background while processing or resizing (lines 338--346)\<close>

definition canvasSetupEffect :: "'b vv \<Rightarrow> 'b vv" where
  "canvasSetupEffect s =
     (if (isProcessingRecordedAudio (controls s) \<or> isResizing s) \<and> canvasRef s
      then s\<lparr>calls := calls s @ [InitialCanvasSetup (backgroundColor (props s))]\<rparr>
      else s)"

section \<open>Handlers\<close>

subsection \<open>Geometry recomputation (lines 348--369)\<close>

definition onResize :: "'b vv \<Rightarrow> 'b vv" where
  "onResize s =
     (case canvasContainerRef s of
        None \<Rightarrow> s
      | Some (clientWidth, clientHeight) \<Rightarrow>
          if \<not> canvasRef s then s
          else
            let roundedHeight =
                  Math_trunc (of_int clientHeight * devicePixelRatio s / 2) * 2
            in s\<lparr>indexSpeedRef := formattedSpeed s,
                 canvasCurrentWidth := clientWidth,
                 canvasCurrentHeight := roundedHeight,
                 canvasWidth := Math_round (of_int clientWidth * devicePixelRatio s),
                 screenWidth := innerWidth s,
                 isResizing := False\<rparr>)"

subsection \<open>The pointer (lines 371--394)\<close>

definition showTimeIndicator :: "'b vv \<Rightarrow> 'b vv" where
  "showTimeIndicator s = s\<lparr>isRecordedCanvasHovered := True\<rparr>"

definition hideTimeIndicator :: "'b vv \<Rightarrow> 'b vv" where
  "hideTimeIndicator s = s\<lparr>isRecordedCanvasHovered := False\<rparr>"

definition setCurrentHoveredOffsetX :: "real \<Rightarrow> 'b vv \<Rightarrow> 'b vv" where
  "setCurrentHoveredOffsetX offsetX s = s\<lparr>hoveredOffsetX := offsetX\<rparr>"

text \<open>
  A click at \<open>clientX\<close> on a canvas whose bounding rectangle starts at \<open>left\<close>. Without a
  forwarded ref, reading \<open>audioRef.current\<close> throws a \<open>TypeError\<close>. The audio element is a
  cell that keeps the time written to it; writing a non-finite number to \<open>currentTime\<close>
  throws a \<open>TypeError\<close> as well, and the handler ends there.
\<close>

datatype error = TypeError

definition handleRecordedAudioCurrentTime :: "real \<Rightarrow> real \<Rightarrow> 'b vv \<Rightarrow> error + 'b vv" where
  "handleRecordedAudioCurrentTime clientX left s =
     (case audioRef s of
        NoRef \<Rightarrow> Inl TypeError
      | AudioRef None \<Rightarrow> Inr s
      | AudioRef (Some _) \<Rightarrow>
          if \<not> canvasRef s then Inr s
          else
            (case js_mul (js_div (duration (controls s)) (of_int (canvasCurrentWidth s)))
                    (clientX - left) of
               None \<Rightarrow> Inl TypeError
             | Some t \<Rightarrow>
                 Inr (s\<lparr>audioRef := AudioRef (Some t),
                        calls := calls s @ [SetCurrentAudioTime t]\<rparr>)))"

section \<open>Rendered values (lines 396--500)\<close>

text \<open>
  The time shown beside the hover indicator, when it is rendered.
  \<open>formatRecordedAudioTime\<close> is imported and is the parameter \<open>fmt\<close>.
\<close>

definition hoveredTime :: "(real option \<Rightarrow> string) \<Rightarrow> 'b vv \<Rightarrow> string option" where
  "hoveredTime fmt s =
     (if isRecordedCanvasHovered s \<and> isAvailableRecordedAudio (controls s) \<and>
         \<not> isProcessingAudio s \<and> \<not> isMobile s \<and>
         isProgressIndicatorOnHoverShown (props s) \<and>
         isProgressIndicatorTimeOnHoverShown (props s)
      then Some (fmt (js_mul (js_div (duration (controls s)) (of_int (canvasCurrentWidth s)))
                        (hoveredOffsetX s)))
      else None)"

text \<open>
  The progress indicator, when it is rendered: its \<open>left\<close> and, when the time is shown
  in it, the distance \<open>(currentAudioTime * canvasCurrentWidth) / duration\<close> that chooses
  the side of the time.
\<close>

definition progressIndicator :: "'b vv \<Rightarrow> (real option \<times> real option option) option" where
  "progressIndicator s =
     (if isProgressIndicatorShown (props s) \<and> isAvailableRecordedAudio (controls s) \<and>
         \<not> isResizing s \<and> duration (controls s) \<noteq> 0
      then Some
        (js_mul (js_div (currentAudioTime (controls s)) (duration (controls s)))
           (of_int (canvasCurrentWidth s)),
         if isProgressIndicatorTimeShown (props s)
         then Some (js_div (currentAudioTime (controls s) * of_int (canvasCurrentWidth s))
                      (duration (controls s)))
         else None)
      else None)"

section \<open>Renders and events\<close>

text \<open>
  The dependency lists of the effects, as the render of the state computes them. An
  array is compared here by its contents, where React compares its identity.
\<close>

definition resizeListenerDeps :: "'b vv \<Rightarrow> string \<times> bool" where
  "resizeListenerDeps s = (width (props s), isAvailableRecordedAudio (controls s))"

definition liveStreamDeps ::
  "'b vv \<Rightarrow> bool \<times> nat list \<times> int \<times> string \<times> string \<times> string \<times> real \<times> bool \<times> bool \<times> int" where
  "liveStreamDeps s =
     (renderedCanvasRef s, audioData (controls s), formattedBarWidth s,
      backgroundColor (props s),
      mainBarColor (props s), secondaryBarColor (props s), rounded (props s),
      fullscreen (props s), isDefaultUIShown (props s), canvasWidth s)"

definition extractionDeps :: "'b vv \<Rightarrow> real list option \<times> int \<times> int \<times> real \<times> real" where
  "extractionDeps s =
     (bufferFromRecordedBlob (controls s), canvasCurrentWidth s, canvasCurrentHeight s,
      gap (props s), barWidth (props s))"

definition staticRenderDeps ::
  "'b vv \<Rightarrow> 'b list \<times> real \<times> bool \<times> real \<times> string \<times> string \<times> string \<times> bool" where
  "staticRenderDeps s =
     (barsData s, currentAudioTime (controls s), isCleared (controls s), rounded (props s),
      backgroundColor (props s), mainBarColor (props s), secondaryBarColor (props s),
      isResizing s)"

definition canvasSetupDeps :: "'b vv \<Rightarrow> bool \<times> bool" where
  "canvasSetupDeps s = (isProcessingRecordedAudio (controls s), isResizing s)"

text \<open>
  A render reads \<open>canvasRef.current\<close> for the dependency list of the layout effect. The
  first render runs every effect; a later render \<open>s\<close> that follows the render \<open>p\<close> runs the
  effects whose dependencies changed: the layout effect first, then the others in the
  order of the source.
\<close>

definition render :: "'b vv \<Rightarrow> 'b vv" where
  "render s = s\<lparr>renderedCanvasRef := canvasRef s\<rparr>"

definition mount :: "'b vv \<Rightarrow> 'b vv" where
  "mount s =
     canvasSetupEffect (staticRenderEffect (extractionEffect
       (resizeListenerEffect (liveStreamEffect s))))"

definition commit :: "'b vv \<Rightarrow> 'b vv \<Rightarrow> 'b vv" where
  "commit p s =
     (let s1 = (if liveStreamDeps p = liveStreamDeps s then s else liveStreamEffect s);
          s2 = (if resizeListenerDeps p = resizeListenerDeps s then s1
                else resizeListenerEffect s1);
          s3 = (if extractionDeps p = extractionDeps s then s2 else extractionEffect s2);
          s4 = (if staticRenderDeps p = staticRenderDeps s then s3
                else staticRenderEffect s3)
      in if canvasSetupDeps p = canvasSetupDeps s then s4 else canvasSetupEffect s4)"

text \<open>
  What can happen to a mounted component: its parent renders it with new props and
  controls, the document changes under it (the container's box, the audio element, the
  device pixel ratio, the window's width), the window fires \<open>resize\<close>, the debounce
  timer elapses, the worker's result lands, or a pointer handler is called. An event of
  the pointer stands for a call of its handler.
\<close>

datatype event =
    Render props controls
  | Document "(int \<times> int) option" audio_ref real int
  | WindowResize
  | DebounceElapsed
  | WorkerResult
  | MouseEnter
  | MouseLeave
  | MouseMove real
  | Click real real

text \<open>
  Modelled from the spec: the hook's result cell takes the bars that \<open>getBarsData\<close>, the
  function the component hands to \<open>useWebWorker\<close>, computes for the request in flight
  (section 4.2). \<open>getBarsData\<close> is imported and is a parameter.
\<close>

definition workerResult :: "(request \<Rightarrow> 'b list) \<Rightarrow> 'b vv \<Rightarrow> 'b vv" where
  "workerResult getBarsData s =
     (case inFlight s of
        None \<Rightarrow> s
      | Some r \<Rightarrow> s\<lparr>barsData := getBarsData r, inFlight := None\<rparr>)"

fun handle :: "(request \<Rightarrow> 'b list) \<Rightarrow> event \<Rightarrow> 'b vv \<Rightarrow> 'b vv" where
  "handle getBarsData (Render pr c) s = s\<lparr>props := pr, controls := c\<rparr>"
| "handle getBarsData (Document container audio dpr w) s =
     s\<lparr>canvasContainerRef := container, audioRef := audio, devicePixelRatio := dpr,
       innerWidth := w\<rparr>"
| "handle getBarsData WindowResize s = handleResize s"
| "handle getBarsData DebounceElapsed s =
     (if debouncePending s then onResize (s\<lparr>debouncePending := False\<rparr>) else s)"
| "handle getBarsData WorkerResult s = workerResult getBarsData s"
| "handle getBarsData MouseEnter s = showTimeIndicator s"
| "handle getBarsData MouseLeave s = hideTimeIndicator s"
| "handle getBarsData (MouseMove offsetX) s = setCurrentHoveredOffsetX offsetX s"
| "handle getBarsData (Click clientX left) s =
     (case handleRecordedAudioCurrentTime clientX left s of
        Inl _ \<Rightarrow> s
      | Inr s' \<Rightarrow> s')"

text \<open>
  A change of the document sets no state of the component, and a click only writes to
  the audio element and calls a setter of the recording hook, whose new controls arrive
  with the parent's next render: neither renders the component.
\<close>

fun renders :: "event \<Rightarrow> bool" where
  "renders (Document _ _ _ _) = False"
| "renders (Click _ _) = False"
| "renders _ = True"

text \<open>
  One step: the handler of the event runs; then, when the event renders the component,
  it renders once with all the state the handler has set, and the effects of the new
  render run. \<open>calls\<close> of the result are the calls of this step.
\<close>

definition step :: "(request \<Rightarrow> 'b list) \<Rightarrow> event \<Rightarrow> 'b vv \<Rightarrow> 'b vv" where
  "step getBarsData e s =
     (let h = handle getBarsData e (s\<lparr>calls := []\<rparr>)
      in if renders e then commit s (render h) else h)"

definition steps :: "(request \<Rightarrow> 'b list) \<Rightarrow> event list \<Rightarrow> 'b vv \<Rightarrow> 'b vv" where
  "steps getBarsData es s = foldl (\<lambda>s e. step getBarsData e s) s es"

text \<open>The state of the first render (lines 133--155), before its effects.\<close>

definition init ::
  "props \<Rightarrow> controls \<Rightarrow> bool \<Rightarrow> (int \<times> int) option \<Rightarrow> audio_ref \<Rightarrow> real \<Rightarrow> int \<Rightarrow> 'b vv" where
  "init pr c canvas container audio dpr w =
     \<lparr>props = pr, controls = c, hoveredOffsetX = 0, canvasCurrentWidth = 0,
      canvasCurrentHeight = 0, canvasWidth = 0, isRecordedCanvasHovered = False,
      screenWidth = 0, isResizing = False, isProcessingAudio = False, canvasRef = canvas,
      renderedCanvasRef = False, canvasContainerRef = container, audioRef = audio,
      indexSpeedRef = Math_trunc (speed pr), barsData = [], inFlight = None,
      debouncePending = False, devicePixelRatio = dpr, innerWidth = w, calls = []\<rparr>"

subsection \<open>Ticks of the live stream\<close>

text \<open>
  A tick is one run of the layout effect, in a render whose \<open>audioData\<close> is the array
  given; \<open>calls\<close> of the result are the calls of the tick.
\<close>

definition tick :: "nat list \<Rightarrow> 'b vv \<Rightarrow> 'b vv" where
  "tick a s = liveStreamEffect (s\<lparr>controls := (controls s)\<lparr>audioData := a\<rparr>, calls := []\<rparr>)"

fun ticks :: "nat list list \<Rightarrow> 'b vv \<Rightarrow> 'b vv" where
  "ticks [] s = s"
| "ticks (a # as) s = ticks as (tick a s)"

text \<open>The number of ticks that call \<open>drawByLiveStream\<close>.\<close>

fun draws :: "nat list list \<Rightarrow> 'b vv \<Rightarrow> nat" where
  "draws [] s = 0"
| "draws (a # as) s = (if calls (tick a s) = [] then 0 else 1) + draws as (tick a s)"

definition drawn :: "'b vv \<Rightarrow> 'b list list" where
  "drawn s = drawnBars (calls s)"

section \<open>Example states\<close>

text \<open>Controls before anything was recorded, and controls of a finished recording.\<close>

definition idle :: controls where
  "idle =
     \<lparr>audioData = [], isRecordingInProgress = False, duration = 0, currentAudioTime = 0,
      bufferFromRecordedBlob = None, isAvailableRecordedAudio = False,
      isPausedRecording = False, isProcessingRecordedAudio = False, isCleared = True\<rparr>"

definition recorded :: controls where
  "recorded =
     \<lparr>audioData = [], isRecordingInProgress = False, duration = 120, currentAudioTime = 30,
      bufferFromRecordedBlob = Some [1 / 2, - 1], isAvailableRecordedAudio = True,
      isPausedRecording = False, isProcessingRecordedAudio = False, isCleared = False\<rparr>"

text \<open>An extractor whose result shows the width it was computed for.\<close>

definition widthTag :: "request \<Rightarrow> int list" where
  "widthTag r = [requestWidth r]"

text \<open>
  A component with the default props in a container of 600 by 200 pixels, on a desktop
  window, once its geometry is computed.
\<close>

definition desktop :: "int vv" where
  "desktop =
     step widthTag DebounceElapsed
       (mount (init default_props idle True (Some (600, 200)) NoRef 1 1024))"

text \<open>The same on a phone of width 375, with a gap of one half.\<close>

definition phone :: "int vv" where
  "phone =
     step widthTag DebounceElapsed
       (mount (init (default_props\<lparr>gap := 1 / 2\<rparr>) idle True (Some (375, 200)) NoRef 2 375))"

text \<open>
  A recording shown at width 600: the geometry is computed, the request for width 600
  is answered and its bars are drawn. Then the container shrinks to width 300 and the
  window fires \<open>resize\<close>; the debounce timer runs.
\<close>

definition shown :: "int vv" where
  "shown =
     steps widthTag [DebounceElapsed, WorkerResult]
       (mount (init default_props recorded True (Some (600, 200)) (AudioRef (Some 30)) 1
                 1024))"

definition pendingResize :: "int vv" where
  "pendingResize =
     steps widthTag [Document (Some (300, 200)) (AudioRef (Some 30)) 1 1024, WindowResize] shown"

text \<open>The timer elapses: the geometry is recomputed for width 300.\<close>

definition narrowed :: "int vv" where
  "narrowed = step widthTag DebounceElapsed pendingResize"

text \<open>The result of the request of width 300 lands.\<close>

definition refreshed :: "int vv" where
  "refreshed = step widthTag WorkerResult narrowed"

text \<open>
  The recording shown at width 600 moves to a display of device pixel ratio 201/200;
  the box of its container stays 600 by 200. The window fires \<open>resize\<close>, and then the
  timer elapses.
\<close>

definition pendingRescale :: "int vv" where
  "pendingRescale =
     steps widthTag
       [Document (Some (600, 200)) (AudioRef (Some 30)) (201 / 200) 1024, WindowResize] shown"

definition rescaled :: "int vv" where
  "rescaled = step widthTag DebounceElapsed pendingRescale"


text \<open>
  The recording is cleared while the timer still runs: the parent renders the component
  with the controls of an empty recorder, and the effects of that render run.
\<close>

definition clearedWhileResizing :: "int vv" where
  "clearedWhileResizing =
     step widthTag (Render default_props idle) pendingResize"

text \<open>The pointer is over the recording shown at width 600, at offset 150.\<close>

definition hovered :: "int vv" where
  "hovered = steps widthTag [MouseEnter, MouseMove 150] shown"

text \<open>
  The component on a display of device pixel ratio 3/2, its container now 601 by 201
  pixels, before the geometry is recomputed.
\<close>

definition zoomed :: "int vv" where
  "zoomed = handle widthTag (Document (Some (601, 201)) NoRef (3 / 2) 1024) desktop"

text \<open>The recording shown at width 600 is cleared; the render's effects have not run.\<close>

definition cleared :: "int vv" where
  "cleared = handle widthTag (Render default_props idle) shown"

section \<open>Lemmas\<close>

subsection \<open>Truncation and rounding\<close>

lemma Math_trunc_pos_iff: "0 < Math_trunc x \<longleftrightarrow> 1 \<le> x"
  unfolding Math_trunc_def by auto

lemma Math_round_eq_round: "Math_round x = round x"
  by (simp add: Math_round_def round_def)

lemma Math_trunc_half_twice:
  "even (Math_trunc (x / 2) * 2) \<and> \<bar>real_of_int (Math_trunc (x / 2) * 2)\<bar> \<le> \<bar>x\<bar> \<and>
   \<bar>x - real_of_int (Math_trunc (x / 2) * 2)\<bar> < 2"
  unfolding Math_trunc_def by auto linarith+

subsection \<open>What the effects leave alone\<close>

lemmas effect_defs =
  liveStreamEffect_def resizeListenerEffect_def debouncedOnResize_def extractionEffect_def
  run_def staticRenderEffect_def canvasSetupEffect_def

lemmas handler_defs =
  handleResize_def debouncedOnResize_def onResize_def workerResult_def showTimeIndicator_def
  hideTimeIndicator_def setCurrentHoveredOffsetX_def handleRecordedAudioCurrentTime_def

lemma drawnBars_append: "drawnBars (xs @ ys) = drawnBars xs @ drawnBars ys"
  by (induction xs rule: drawnBars.induct) simp_all

lemma effects_keep [simp]:
  "isResizing (liveStreamEffect s) = isResizing s"
  "isResizing (resizeListenerEffect s) = isResizing s"
  "isResizing (extractionEffect s) = isResizing s"
  "isResizing (staticRenderEffect s) = isResizing s"
  "isResizing (canvasSetupEffect s) = isResizing s"
  "barsData (liveStreamEffect s) = barsData s"
  "barsData (resizeListenerEffect s) = barsData s"
  "barsData (extractionEffect s) = barsData s"
  "barsData (canvasSetupEffect s) = barsData s"
  "props (liveStreamEffect s) = props s"
  "props (resizeListenerEffect s) = props s"
  "props (extractionEffect s) = props s"
  "props (staticRenderEffect s) = props s"
  "props (canvasSetupEffect s) = props s"
  "controls (liveStreamEffect s) = controls s"
  "controls (resizeListenerEffect s) = controls s"
  "controls (extractionEffect s) = controls s"
  "canvasRef (liveStreamEffect s) = canvasRef s"
  "canvasRef (resizeListenerEffect s) = canvasRef s"
  "canvasRef (extractionEffect s) = canvasRef s"
  by (simp_all add: effect_defs Let_def split: option.split)

lemma effects_keep_geometry [simp]:
  "canvasWidth (liveStreamEffect s) = canvasWidth s"
  "canvasWidth (resizeListenerEffect s) = canvasWidth s"
  "canvasWidth (extractionEffect s) = canvasWidth s"
  "canvasWidth (staticRenderEffect s) = canvasWidth s"
  "canvasWidth (canvasSetupEffect s) = canvasWidth s"
  "canvasCurrentHeight (liveStreamEffect s) = canvasCurrentHeight s"
  "canvasCurrentHeight (resizeListenerEffect s) = canvasCurrentHeight s"
  "canvasCurrentHeight (extractionEffect s) = canvasCurrentHeight s"
  "canvasCurrentHeight (staticRenderEffect s) = canvasCurrentHeight s"
  "canvasCurrentHeight (canvasSetupEffect s) = canvasCurrentHeight s"
  "screenWidth (liveStreamEffect s) = screenWidth s"
  "screenWidth (resizeListenerEffect s) = screenWidth s"
  "screenWidth (extractionEffect s) = screenWidth s"
  "screenWidth (staticRenderEffect s) = screenWidth s"
  "screenWidth (canvasSetupEffect s) = screenWidth s"
  "inFlight (staticRenderEffect s) = inFlight s"
  "inFlight (canvasSetupEffect s) = inFlight s"
  by (simp_all add: effect_defs Let_def split: option.split)

lemma effects_keep_formatted [simp]:
  "formattedBarWidth (liveStreamEffect s) = formattedBarWidth s"
  "formattedBarWidth (resizeListenerEffect s) = formattedBarWidth s"
  "formattedBarWidth (extractionEffect s) = formattedBarWidth s"
  "formattedBarWidth (staticRenderEffect s) = formattedBarWidth s"
  "formattedBarWidth (canvasSetupEffect s) = formattedBarWidth s"
  "formattedGap (liveStreamEffect s) = formattedGap s"
  "formattedGap (resizeListenerEffect s) = formattedGap s"
  "formattedGap (extractionEffect s) = formattedGap s"
  "formattedGap (staticRenderEffect s) = formattedGap s"
  "formattedGap (canvasSetupEffect s) = formattedGap s"
  by (simp_all add: formattedBarWidth_def formattedGap_def isMobile_def)

lemma commit_keeps [simp]:
  "isResizing (commit p s) = isResizing s"
  "canvasWidth (commit p s) = canvasWidth s"
  "canvasCurrentHeight (commit p s) = canvasCurrentHeight s"
  "formattedBarWidth (commit p s) = formattedBarWidth s"
  "formattedGap (commit p s) = formattedGap s"
  by (simp_all add: commit_def Let_def)

lemma calls_kept:
  "c \<in> set (calls s) \<Longrightarrow> c \<in> set (calls (staticRenderEffect s))"
  "c \<in> set (calls s) \<Longrightarrow> c \<in> set (calls (canvasSetupEffect s))"
  by (auto simp add: staticRenderEffect_def canvasSetupEffect_def)

subsection \<open>What is drawn by \<open>drawByBlob\<close>\<close>

lemma drawn_effects [simp]:
  "drawn (liveStreamEffect s) = drawn s"
  "drawn (resizeListenerEffect s) = drawn s"
  "drawn (extractionEffect s) = drawn s"
  "drawn (canvasSetupEffect s) = drawn s"
  by (simp_all add: drawn_def drawnBars_append effect_defs Let_def split: option.split)

lemma drawn_staticRenderEffect:
  "drawn (staticRenderEffect s) =
     drawn s @
     (if onlyRecording (props s) \<or> barsData s = [] \<or> \<not> canvasRef s \<or> isResizing s \<or>
         isCleared (controls s)
      then [] else [barsData s])"
  by (simp add: drawn_def drawnBars_append staticRenderEffect_def)

lemma staticRenderEffect_resizing: "isResizing s \<Longrightarrow> staticRenderEffect s = s"
  by (simp add: staticRenderEffect_def)

lemma drawn_commit_resizing: "isResizing s \<Longrightarrow> drawn (commit p s) = drawn s"
  by (simp add: commit_def Let_def staticRenderEffect_resizing)

lemma drawn_commit:
  "set (drawn (commit p s)) \<subseteq> set (drawn s) \<union> (if isResizing s then {} else {barsData s})"
  by (auto simp add: commit_def Let_def drawn_staticRenderEffect)

lemma render_keeps [simp]:
  "isResizing (render s) = isResizing s"
  "barsData (render s) = barsData s"
  "inFlight (render s) = inFlight s"
  "props (render s) = props s"
  "controls (render s) = controls s"
  "canvasRef (render s) = canvasRef s"
  "canvasWidth (render s) = canvasWidth s"
  "canvasCurrentWidth (render s) = canvasCurrentWidth s"
  "canvasCurrentHeight (render s) = canvasCurrentHeight s"
  "screenWidth (render s) = screenWidth s"
  "hoveredOffsetX (render s) = hoveredOffsetX s"
  "isRecordedCanvasHovered (render s) = isRecordedCanvasHovered s"
  "isProcessingAudio (render s) = isProcessingAudio s"
  "calls (render s) = calls s"
  "drawn (render s) = drawn s"
  "formattedBarWidth (render s) = formattedBarWidth s"
  "formattedGap (render s) = formattedGap s"
  "extractionDeps (render s) = extractionDeps s"
  "staticRenderDeps (render s) = staticRenderDeps s"
  by (simp_all add: render_def drawn_def formattedBarWidth_def formattedGap_def isMobile_def
      extractionDeps_def staticRenderDeps_def)

lemma drawn_handle: "drawn (handle g e (s\<lparr>calls := []\<rparr>)) = []"
  by (cases e)
    (auto simp add: drawn_def handler_defs Let_def
      split: option.splits if_splits sum.splits prod.splits audio_ref.splits)

lemma handle_ignores_calls:
  "barsData (handle g e (s\<lparr>calls := cs\<rparr>)) = barsData (handle g e s) \<and>
   isResizing (handle g e (s\<lparr>calls := cs\<rparr>)) = isResizing (handle g e s) \<and>
   inFlight (handle g e (s\<lparr>calls := cs\<rparr>)) = inFlight (handle g e s)"
  by (cases e)
    (auto simp add: handler_defs Let_def
      split: option.splits if_splits sum.splits prod.splits audio_ref.splits)

lemma handle_barsData:
  "barsData (handle g e s) =
     (if e = WorkerResult then (case inFlight s of None \<Rightarrow> barsData s | Some r \<Rightarrow> g r)
      else barsData s)"
  by (cases e)
    (auto simp add: handler_defs Let_def
      split: option.splits if_splits sum.splits prod.splits audio_ref.splits)

lemma handle_inFlight:
  "inFlight (handle g e s) = (if e = WorkerResult then None else inFlight s)"
  by (cases e)
    (auto simp add: handler_defs Let_def
      split: option.splits if_splits sum.splits prod.splits audio_ref.splits)

lemma drawn_step:
  "bars \<in> set (drawn (step g e s)) \<Longrightarrow>
   bars = barsData (handle g e s) \<and> \<not> isResizing (step g e s)"
  using drawn_commit [of s "render (handle g e (s\<lparr>calls := []\<rparr>))"]
  by (auto simp add: step_def Let_def drawn_handle handle_ignores_calls split: if_splits)

lemma isResizing_cleared_by:
  "isResizing s \<Longrightarrow> \<not> isResizing (handle g e s) \<Longrightarrow>
   e = DebounceElapsed \<and> debouncePending s \<and> canvasRef s \<and> canvasContainerRef s \<noteq> None"
  by (cases e)
    (auto simp add: handler_defs Let_def
      split: option.splits if_splits sum.splits prod.splits audio_ref.splits)

subsection \<open>The requests of a commit\<close>

lemma submitted_append: "submitted (xs @ ys) = submitted xs @ submitted ys"
  by (induction xs rule: submitted.induct) simp_all

text \<open>The request that the extraction effect submits in a render, if it submits one.\<close>

lemma submitted_effects [simp]:
  "submitted (calls (liveStreamEffect s)) = submitted (calls s)"
  "submitted (calls (resizeListenerEffect s)) = submitted (calls s)"
  "submitted (calls (staticRenderEffect s)) = submitted (calls s)"
  "submitted (calls (canvasSetupEffect s)) = submitted (calls s)"
  "inFlight (liveStreamEffect s) = inFlight s"
  "inFlight (resizeListenerEffect s) = inFlight s"
  by (simp_all add: submitted_append effect_defs Let_def)

lemma extractionEffect_submits:
  "submitted (calls (extractionEffect s)) =
     submitted (calls s) @
     (case bufferFromRecordedBlob (controls s) of
        None \<Rightarrow> []
      | Some bufferData \<Rightarrow>
          if canvasRef s \<and> \<not> isRecordingInProgress (controls s) \<and> \<not> onlyRecording (props s)
          then [Request bufferData (canvasCurrentHeight s) (canvasWidth s) (formattedBarWidth s)
                  (formattedGap s)]
          else [])"
  "inFlight (extractionEffect s) =
     (case bufferFromRecordedBlob (controls s) of
        None \<Rightarrow> inFlight s
      | Some bufferData \<Rightarrow>
          if canvasRef s \<and> \<not> isRecordingInProgress (controls s) \<and> \<not> onlyRecording (props s)
          then Some (Request bufferData (canvasCurrentHeight s) (canvasWidth s)
                       (formattedBarWidth s) (formattedGap s))
          else inFlight s)"
  by (auto simp add: extractionEffect_def run_def submitted_append split: option.split)

lemma commit_submits:
  "submitted (calls (commit p s)) =
     submitted (calls s) @
     (if extractionDeps p = extractionDeps s then []
      else case bufferFromRecordedBlob (controls s) of
        None \<Rightarrow> []
      | Some bufferData \<Rightarrow>
          if canvasRef s \<and> \<not> isRecordingInProgress (controls s) \<and> \<not> onlyRecording (props s)
          then [Request bufferData (canvasCurrentHeight s) (canvasWidth s) (formattedBarWidth s)
                  (formattedGap s)]
          else [])"
  "inFlight (commit p s) =
     (if extractionDeps p = extractionDeps s then inFlight s
      else case bufferFromRecordedBlob (controls s) of
        None \<Rightarrow> inFlight s
      | Some bufferData \<Rightarrow>
          if canvasRef s \<and> \<not> isRecordingInProgress (controls s) \<and> \<not> onlyRecording (props s)
          then Some (Request bufferData (canvasCurrentHeight s) (canvasWidth s)
                       (formattedBarWidth s) (formattedGap s))
          else inFlight s)"
  by (auto simp add: commit_def Let_def extractionEffect_submits split: option.splits)

lemma inFlight_commit:
  "inFlight (commit p s) =
     (if submitted (calls (commit p s)) = submitted (calls s) then inFlight s
      else Some (last (submitted (calls (commit p s)))))"
  by (auto simp add: commit_submits split: option.splits)

lemma submitted_handle: "submitted (calls (handle g e (s\<lparr>calls := []\<rparr>))) = []"
  by (cases e)
    (auto simp add: handler_defs Let_def
      split: option.splits if_splits sum.splits prod.splits audio_ref.splits)

lemma inFlight_step:
  "inFlight (step g e s) =
     (if submitted (calls (step g e s)) = [] then (if e = WorkerResult then None else inFlight s)
      else Some (last (submitted (calls (step g e s)))))"
proof -
  let ?h = "handle g e (s\<lparr>calls := []\<rparr>)"
  have h: "inFlight ?h = (if e = WorkerResult then None else inFlight s)"
    by (simp add: handle_inFlight)
  show ?thesis
  proof (cases "renders e")
    case True
    then have "step g e s = commit s (render ?h)" by (simp add: step_def)
    then show ?thesis
      using inFlight_commit [of s "render ?h"] h by (simp add: submitted_handle)
  next
    case False
    then have "step g e s = ?h" by (simp add: step_def)
    then show ?thesis using h by (simp add: submitted_handle)
  qed
qed

subsection \<open>What a commit leaves alone\<close>

lemma effects_keep_pointer [simp]:
  "hoveredOffsetX (liveStreamEffect s) = hoveredOffsetX s"
  "hoveredOffsetX (resizeListenerEffect s) = hoveredOffsetX s"
  "hoveredOffsetX (extractionEffect s) = hoveredOffsetX s"
  "hoveredOffsetX (staticRenderEffect s) = hoveredOffsetX s"
  "hoveredOffsetX (canvasSetupEffect s) = hoveredOffsetX s"
  "isRecordedCanvasHovered (liveStreamEffect s) = isRecordedCanvasHovered s"
  "isRecordedCanvasHovered (resizeListenerEffect s) = isRecordedCanvasHovered s"
  "isRecordedCanvasHovered (extractionEffect s) = isRecordedCanvasHovered s"
  "isRecordedCanvasHovered (staticRenderEffect s) = isRecordedCanvasHovered s"
  "isRecordedCanvasHovered (canvasSetupEffect s) = isRecordedCanvasHovered s"
  "canvasCurrentWidth (liveStreamEffect s) = canvasCurrentWidth s"
  "canvasCurrentWidth (resizeListenerEffect s) = canvasCurrentWidth s"
  "canvasCurrentWidth (extractionEffect s) = canvasCurrentWidth s"
  "canvasCurrentWidth (staticRenderEffect s) = canvasCurrentWidth s"
  "canvasCurrentWidth (canvasSetupEffect s) = canvasCurrentWidth s"
  "controls (staticRenderEffect s) = controls s"
  "controls (canvasSetupEffect s) = controls s"
  "isProcessingAudio (liveStreamEffect s) = isProcessingAudio s"
  "isProcessingAudio (resizeListenerEffect s) = isProcessingAudio s"
  "isProcessingAudio (extractionEffect s) = isProcessingAudio s"
  "isProcessingAudio (canvasSetupEffect s) = isProcessingAudio s"
  by (simp_all add: effect_defs Let_def split: option.split)

lemma commit_keeps_pointer [simp]:
  "hoveredOffsetX (commit p s) = hoveredOffsetX s"
  "isRecordedCanvasHovered (commit p s) = isRecordedCanvasHovered s"
  "canvasCurrentWidth (commit p s) = canvasCurrentWidth s"
  "props (commit p s) = props s"
  "controls (commit p s) = controls s"
  "screenWidth (commit p s) = screenWidth s"
  by (simp_all add: commit_def Let_def)

lemma commit_keeps_processing:
  "staticRenderDeps p = staticRenderDeps s \<Longrightarrow>
   isProcessingAudio (commit p s) = isProcessingAudio s"
  by (simp add: commit_def Let_def)

lemma hoveredTime_commit:
  "staticRenderDeps p = staticRenderDeps s \<Longrightarrow> hoveredTime fmt (commit p s) = hoveredTime fmt s"
  by (simp add: hoveredTime_def isMobile_def commit_keeps_processing)

subsection \<open>Ticks\<close>

lemma formattedSpeed_tick [simp]: "formattedSpeed (tick a s) = formattedSpeed s"
  by (simp add: tick_def liveStreamEffect_def formattedSpeed_def Let_def)

lemma canvasRef_tick [simp]: "canvasRef (tick a s) = canvasRef s"
  by (simp add: tick_def liveStreamEffect_def Let_def)

lemma indexSpeedRef_tick:
  "canvasRef s \<Longrightarrow> a \<noteq> [] \<Longrightarrow>
   indexSpeedRef (tick a s) =
     (if formattedSpeed s \<le> indexSpeedRef s then 1 else indexSpeedRef s + 1)"
  by (simp add: tick_def liveStreamEffect_def formattedSpeed_def Let_def)

lemma calls_tick:
  "canvasRef s \<Longrightarrow> a \<noteq> [] \<Longrightarrow>
   (calls (tick a s) = []) = (indexSpeedRef s < formattedSpeed s)"
  by (auto simp add: tick_def liveStreamEffect_def formattedSpeed_def Let_def)

lemma draws_append: "draws (xs @ ys) s = draws xs s + draws ys (ticks xs s)"
  by (induction xs arbitrary: s) simp_all

lemma idle_ticks:
  "canvasRef s \<Longrightarrow> \<forall>a \<in> set as. a \<noteq> [] \<Longrightarrow>
   indexSpeedRef s + int (length as) \<le> formattedSpeed s \<Longrightarrow>
   draws as s = 0 \<and> indexSpeedRef (ticks as s) = indexSpeedRef s + int (length as) \<and>
   canvasRef (ticks as s) \<and> formattedSpeed (ticks as s) = formattedSpeed s"
proof (induction as arbitrary: s)
  case Nil
  then show ?case by simp
next
  case (Cons a as)
  from Cons.prems have lt: "indexSpeedRef s < formattedSpeed s" and ne: "a \<noteq> []" by auto
  have up: "indexSpeedRef (tick a s) = indexSpeedRef s + 1"
    using Cons.prems(1) ne lt by (simp add: indexSpeedRef_tick)
  have quiet: "calls (tick a s) = []"
    using Cons.prems(1) ne lt by (simp add: calls_tick)
  have "draws as (tick a s) = 0 \<and>
        indexSpeedRef (ticks as (tick a s)) = indexSpeedRef (tick a s) + int (length as) \<and>
        canvasRef (ticks as (tick a s)) \<and>
        formattedSpeed (ticks as (tick a s)) = formattedSpeed (tick a s)"
    using Cons.prems up by (intro Cons.IH) auto
  with up quiet show ?case by simp
qed

lemma one_draw_per_period:
  assumes canvas: "canvasRef s" and pos: "1 \<le> indexSpeedRef s"
    and sp: "1 \<le> formattedSpeed s"
    and len: "int (length as) = formattedSpeed s" and ne: "\<forall>a \<in> set as. a \<noteq> []"
  shows "draws as s = 1"
proof (cases "formattedSpeed s \<le> indexSpeedRef s")
  case True
  from sp len obtain a as' where as: "as = a # as'" by (cases as) auto
  have a: "a \<noteq> []" using ne as by simp
  have c1: "indexSpeedRef (tick a s) = 1" using canvas a True by (simp add: indexSpeedRef_tick)
  have d1: "calls (tick a s) \<noteq> []" using canvas a True by (simp add: calls_tick)
  have "draws as' (tick a s) = 0"
    using idle_ticks [of "tick a s" as'] canvas ne as c1 len by simp
  with d1 show ?thesis by (simp add: as)
next
  case False
  define k where "k = nat (formattedSpeed s - indexSpeedRef s)"
  have k: "k < length as" "int k = formattedSpeed s - indexSpeedRef s"
    using False pos len by (auto simp add: k_def)
  define xs where "xs = take k as"
  define a where "a = as ! k"
  define ys where "ys = drop (Suc k) as"
  have as: "as = xs @ a # ys" using k(1) by (simp add: xs_def a_def ys_def id_take_nth_drop)
  have lx: "length xs = k" using k(1) by (simp add: xs_def)
  have ly: "int (length ys) = indexSpeedRef s - 1" using k len by (simp add: ys_def)
  have nes: "\<forall>a \<in> set xs. a \<noteq> []" "a \<noteq> []" "\<forall>a \<in> set ys. a \<noteq> []" using ne as by auto
  let ?s1 = "ticks xs s"
  have i1: "draws xs s = 0 \<and> indexSpeedRef ?s1 = indexSpeedRef s + int (length xs) \<and>
      canvasRef ?s1 \<and> formattedSpeed ?s1 = formattedSpeed s"
    using canvas nes(1) lx k(2) by (intro idle_ticks) auto
  then have at: "indexSpeedRef ?s1 = formattedSpeed ?s1" using lx k(2) by simp
  have c1: "indexSpeedRef (tick a ?s1) = 1" using i1 nes(2) at by (simp add: indexSpeedRef_tick)
  have d1: "calls (tick a ?s1) \<noteq> []" using i1 nes(2) at by (simp add: calls_tick)
  have "draws ys (tick a ?s1) = 0"
    using idle_ticks [of "tick a ?s1" ys] i1 nes(3) c1 ly pos False by simp
  with i1 d1 show ?thesis by (simp add: as draws_append)
qed

subsection \<open>What a commit draws and stores\<close>

lemma commit_draws:
  "drawn (commit p s) =
     drawn s @
     (if staticRenderDeps p = staticRenderDeps s \<or> onlyRecording (props s) \<or> barsData s = [] \<or>
         \<not> canvasRef s \<or> isResizing s \<or> isCleared (controls s)
      then [] else [barsData s])"
  by (simp add: commit_def Let_def drawn_staticRenderEffect)

lemma commit_keeps_barsData:
  "\<not> isCleared (controls s) \<Longrightarrow> barsData (commit p s) = barsData s"
  by (simp add: commit_def Let_def staticRenderEffect_def)

subsection \<open>The pointer\<close>



subsection \<open>The example states, evaluated\<close>

lemma desktop_value:
  "desktop =
     \<lparr>props = default_props, controls = idle, hoveredOffsetX = 0, canvasCurrentWidth = 600,
      canvasCurrentHeight = 200, canvasWidth = 600, isRecordedCanvasHovered = False,
      screenWidth = 1024, isResizing = False, isProcessingAudio = False, canvasRef = True, renderedCanvasRef = True,
      canvasContainerRef = Some (600, 200), audioRef = NoRef, indexSpeedRef = 1,
      barsData = [], inFlight = None, debouncePending = False, devicePixelRatio = 1,
      innerWidth = 1024,
      calls = [DrawByLiveStream [] 4 False False ''transparent'' ''#FFFFFF'' ''#5e5e5e'' 2 5
                 True False]\<rparr>"
  by code_simp

lemma phone_value:
  "phone =
     \<lparr>props = default_props\<lparr>gap := 1 / 2\<rparr>, controls = idle, hoveredOffsetX = 0,
      canvasCurrentWidth = 375, canvasCurrentHeight = 400, canvasWidth = 750,
      isRecordedCanvasHovered = False, screenWidth = 375, isResizing = False,
      isProcessingAudio = False, canvasRef = True, renderedCanvasRef = True, canvasContainerRef = Some (375, 200),
      audioRef = NoRef, indexSpeedRef = 1, barsData = [], inFlight = None,
      debouncePending = False, devicePixelRatio = 2, innerWidth = 375,
      calls = [DrawByLiveStream [] 2 False False ''transparent'' ''#FFFFFF'' ''#5e5e5e'' 2 5
                 True False]\<rparr>"
  by code_simp

lemma shown_value:
  "shown =
     \<lparr>props = default_props, controls = recorded, hoveredOffsetX = 0,
      canvasCurrentWidth = 600, canvasCurrentHeight = 200, canvasWidth = 600,
      isRecordedCanvasHovered = False, screenWidth = 1024, isResizing = False,
      isProcessingAudio = False, canvasRef = True, renderedCanvasRef = True, canvasContainerRef = Some (600, 200),
      audioRef = AudioRef (Some 30), indexSpeedRef = 1, barsData = [600], inFlight = None,
      debouncePending = False, devicePixelRatio = 1, innerWidth = 1024,
      calls = [DrawByBlob [600] 2 1 ''transparent'' ''#FFFFFF'' ''#5e5e5e'' 30 5 120,
               SetIsProcessingRecordedAudio False]\<rparr>"
  by code_simp

lemma pendingResize_value:
  "pendingResize =
     \<lparr>props = default_props, controls = recorded, hoveredOffsetX = 0,
      canvasCurrentWidth = 600, canvasCurrentHeight = 200, canvasWidth = 600,
      isRecordedCanvasHovered = False, screenWidth = 1024, isResizing = True,
      isProcessingAudio = True, canvasRef = True, renderedCanvasRef = True, canvasContainerRef = Some (300, 200),
      audioRef = AudioRef (Some 30), indexSpeedRef = 1, barsData = [600], inFlight = None,
      debouncePending = True, devicePixelRatio = 1, innerWidth = 1024,
      calls = [InitialCanvasSetup ''transparent'']\<rparr>"
  by code_simp

lemma narrowed_value:
  "narrowed =
     \<lparr>props = default_props, controls = recorded, hoveredOffsetX = 0,
      canvasCurrentWidth = 300, canvasCurrentHeight = 200, canvasWidth = 300,
      isRecordedCanvasHovered = False, screenWidth = 1024, isResizing = False,
      isProcessingAudio = False, canvasRef = True, renderedCanvasRef = True, canvasContainerRef = Some (300, 200),
      audioRef = AudioRef (Some 30), indexSpeedRef = 1, barsData = [600],
      inFlight = Some (Request [1 / 2, - 1] 200 300 2 1), debouncePending = False,
      devicePixelRatio = 1, innerWidth = 1024,
      calls = [DrawByLiveStream [] 4 False False ''transparent'' ''#FFFFFF'' ''#5e5e5e'' 2 5
                 True False,
               Run (Request [1 / 2, - 1] 200 300 2 1),
               DrawByBlob [600] 2 1 ''transparent'' ''#FFFFFF'' ''#5e5e5e'' 30 5 120,
               SetIsProcessingRecordedAudio False]\<rparr>"
  by code_simp

lemma clearedWhileResizing_value:
  "clearedWhileResizing =
     \<lparr>props = default_props, controls = idle, hoveredOffsetX = 0,
      canvasCurrentWidth = 600, canvasCurrentHeight = 200, canvasWidth = 600,
      isRecordedCanvasHovered = False, screenWidth = 1024, isResizing = True,
      isProcessingAudio = True, canvasRef = True, renderedCanvasRef = True, canvasContainerRef = Some (300, 200),
      audioRef = AudioRef (Some 30), indexSpeedRef = 1, barsData = [600], inFlight = None,
      debouncePending = True, devicePixelRatio = 1, innerWidth = 1024, calls = []\<rparr>"
  by code_simp

lemma hovered_value:
  "hovered = shown\<lparr>hoveredOffsetX := 150, isRecordedCanvasHovered := True, calls := []\<rparr>"
  unfolding shown_value by code_simp

lemma zoomed_value:
  "zoomed = desktop\<lparr>canvasContainerRef := Some (601, 201), devicePixelRatio := 3 / 2\<rparr>"
  unfolding desktop_value by code_simp

lemma cleared_value: "cleared = shown\<lparr>controls := idle\<rparr>"
  unfolding shown_value by code_simp

lemma refreshed_value:
  "refreshed =
     narrowed\<lparr>barsData := [300], inFlight := None,
       calls := [DrawByBlob [300] 2 1 ''transparent'' ''#FFFFFF'' ''#5e5e5e'' 30 5 120,
                 SetIsProcessingRecordedAudio False]\<rparr>"
  unfolding narrowed_value by code_simp

lemma pendingRescale_value:
  "pendingRescale =
     pendingResize\<lparr>canvasContainerRef := Some (600, 200), devicePixelRatio := 201 / 200\<rparr>"
  unfolding pendingResize_value by code_simp

lemma rescaled_value:
  "rescaled =
     shown\<lparr>canvasWidth := 603, devicePixelRatio := 201 / 200,
       calls := [DrawByLiveStream [] 4 False False ''transparent'' ''#FFFFFF'' ''#5e5e5e'' 2 5
                   True False,
                 DrawByBlob [600] 2 1 ''transparent'' ''#FFFFFF'' ''#5e5e5e'' 30 5 120,
                 SetIsProcessingRecordedAudio False]\<rparr>"
  unfolding shown_value by code_simp


lemmas formatted_defs =
  formattedSpeed_def formattedGap_def formattedBarWidth_def isMobile_def unit_def
  Math_trunc_def default_props_def

section \<open>The claims\<close>

subsection \<open>C1: the throttle of the live stream\<close>

text \<open>
  Claim C1 says that the canvas is redrawn only when the counter has reached the speed,
  so that 1 tick of every 3 draws when the speed is 3. It fails on a tick whose
  amplitude data is empty: in \<open>desktop\<close> the speed is 3 and the counter is 1, and a tick
  with no data calls \<open>drawByLiveStream\<close>; three such ticks in a row draw three times.
\<close>

theorem empty_stream_bypasses_throttle:
  "canvasRef desktop \<and> formattedSpeed desktop = 3 \<and> indexSpeedRef desktop = 1 \<and>
   calls (tick [] desktop) =
     [DrawByLiveStream [] 4 False False ''transparent'' ''#FFFFFF'' ''#5e5e5e'' 2 5 True False] \<and>
   draws [[], [], []] desktop = 3"
  unfolding desktop_value by code_simp

text \<open>
  Claim C1, amended: on a mounted canvas, a tick whose amplitude data is not empty calls
  \<open>drawByLiveStream\<close> exactly when the counter has reached the truncated speed; the counter
  is then reset to 0 and, as on every tick, incremented, so it is 1 after a tick that
  draws and one more than before after a tick that does not, and such a tick changes
  nothing else. When the speed and the counter are at least 1 (the counter is after any
  tick), exactly one of \<open>formattedSpeed\<close> consecutive ticks with data draws: one of every
  three for the speed 3.
\<close>

theorem throttle_with_data:
  assumes "canvasRef s" and "a \<noteq> []"
  shows "tick a s =
      s\<lparr>controls := (controls s)\<lparr>audioData := a\<rparr>,
        indexSpeedRef := (if formattedSpeed s \<le> indexSpeedRef s then 1 else indexSpeedRef s + 1),
        calls :=
          (if formattedSpeed s \<le> indexSpeedRef s
           then [DrawByLiveStream a (unit s) (isRecordingInProgress (controls s))
                   (isPausedRecording (controls s)) (backgroundColor (props s))
                   (mainBarColor (props s)) (secondaryBarColor (props s))
                   (formattedBarWidth s) (rounded (props s)) (animateCurrentPick (props s))
                   (fullscreen (props s))]
           else [])\<rparr> \<and>
    (\<forall>as. 1 \<le> formattedSpeed s \<and> 1 \<le> indexSpeedRef s \<and>
       int (length as) = formattedSpeed s \<and> (\<forall>d \<in> set as. d \<noteq> []) \<longrightarrow> draws as s = 1)"
proof -
  have "tick a s =
      s\<lparr>controls := (controls s)\<lparr>audioData := a\<rparr>,
        indexSpeedRef := (if formattedSpeed s \<le> indexSpeedRef s then 1 else indexSpeedRef s + 1),
        calls :=
          (if formattedSpeed s \<le> indexSpeedRef s
           then [DrawByLiveStream a (unit s) (isRecordingInProgress (controls s))
                   (isPausedRecording (controls s)) (backgroundColor (props s))
                   (mainBarColor (props s)) (secondaryBarColor (props s))
                   (formattedBarWidth s) (rounded (props s)) (animateCurrentPick (props s))
                   (fullscreen (props s))]
           else [])\<rparr>"
    using assms
    by (simp add: tick_def liveStreamEffect_def Let_def formattedSpeed_def formattedGap_def
        formattedBarWidth_def isMobile_def unit_def)
  moreover have "draws as s = 1"
    if "1 \<le> formattedSpeed s \<and> 1 \<le> indexSpeedRef s \<and>
       int (length as) = formattedSpeed s \<and> (\<forall>d \<in> set as. d \<noteq> [])" for as
    using that assms(1) by (intro one_draw_per_period) simp_all
  ultimately show ?thesis by blast
qed

theorem throttle_with_data_witness:
  "tick [7] desktop = desktop\<lparr>controls := idle\<lparr>audioData := [7]\<rparr>, indexSpeedRef := 2, calls := []\<rparr> \<and>
   draws [[7], [8], [9]] desktop = 1"
proof -
  have c: "canvasRef desktop" by (simp add: desktop_value)
  have n: "[7::nat] \<noteq> []" by simp
  note t = throttle_with_data [OF c n]
  have "1 \<le> formattedSpeed desktop \<and> 1 \<le> indexSpeedRef desktop \<and>
      int (length [[7::nat], [8], [9]]) = formattedSpeed desktop \<and>
      (\<forall>d \<in> set [[7::nat], [8], [9]]. d \<noteq> [])"
    by (simp add: desktop_value formatted_defs)
  with t have "draws [[7], [8], [9]] desktop = 1" by blast
  moreover from t have
    "tick [7] desktop = desktop\<lparr>controls := idle\<lparr>audioData := [7]\<rparr>, indexSpeedRef := 2, calls := []\<rparr>"
    by (simp add: desktop_value formatted_defs)
  ultimately show ?thesis by simp
qed

subsection \<open>C2: from an offset to a time\<close>




subsection \<open>C3: results of an earlier geometry\<close>

text \<open>
  Claim C3 says that once a new extraction request is submitted, a result computed for
  the geometry of an earlier request is never drawn. It fails when a resize ends. In
  \<open>pendingResize\<close> the stored bars are those of the request of width 600 and the
  container is 300 wide. When the debounce timer elapses, the commit submits the request
  of width 300 and then hands the stored bars, those of width 600, to \<open>drawByBlob\<close>.
\<close>

theorem stale_bars_drawn_after_resize:
  "barsData pendingResize = widthTag (Request [1 / 2, - 1] 200 600 2 1) \<and>
   canvasWidth narrowed = 300 \<and>
   inFlight narrowed = Some (Request [1 / 2, - 1] 200 300 2 1) \<and>
   calls narrowed =
     [DrawByLiveStream [] 4 False False ''transparent'' ''#FFFFFF'' ''#5e5e5e'' 2 5 True False,
      Run (Request [1 / 2, - 1] 200 300 2 1),
      DrawByBlob (widthTag (Request [1 / 2, - 1] 200 600 2 1)) 2 1 ''transparent'' ''#FFFFFF''
        ''#5e5e5e'' 30 5 120,
      SetIsProcessingRecordedAudio False]"
  by (simp add: pendingResize_value narrowed_value widthTag_def)

text \<open>
  Claim C3, amended. The result that lands is that of the last request submitted: the
  request in flight after a step is the last one the step submitted, if it submitted
  one; when the worker's result lands, the stored bars become the bars of the request in
  flight, and no other handler replaces them; and when they differ from the bars stored
  before, are not empty and the render passes the guard of the static renderer, they are
  drawn in the same step. What a step draws is always the bars stored in its render,
  and only with the resizing flag clear; the component does not compare them with the
  current geometry, so the bars of an earlier request are drawn until the result of the
  new one lands. When the geometry is recomputed, with a decoded recording present,
  the canvas mounted, no recording in progress and not in only-recording mode, the step
  submits one request, carrying the recomputed pixel width and height, if the layout
  width or the pixel height changed, and none otherwise, also when the pixel width
  changed.
\<close>

theorem last_request_lands_and_stored_bars_drawn:
  "(\<forall>bars \<in> set (drawn (step g e s)).
      bars = barsData (handle g e s) \<and> \<not> isResizing (step g e s)) \<and>
   barsData (handle g e s) =
     (if e = WorkerResult then (case inFlight s of None \<Rightarrow> barsData s | Some r \<Rightarrow> g r)
      else barsData s) \<and>
   inFlight (step g e s) =
     (if submitted (calls (step g e s)) = [] then (if e = WorkerResult then None else inFlight s)
      else Some (last (submitted (calls (step g e s))))) \<and>
   (e = WorkerResult \<and> inFlight s = Some r \<and> g r \<noteq> [] \<and> g r \<noteq> barsData s \<and>
    \<not> onlyRecording (props s) \<and> canvasRef s \<and> \<not> isResizing s \<and> \<not> isCleared (controls s) \<longrightarrow>
      barsData (step g e s) = g r \<and> drawn (step g e s) = [g r]) \<and>
   (e = DebounceElapsed \<and> debouncePending s \<and> canvasRef s \<and>
    canvasContainerRef s = Some (clientWidth, clientHeight) \<and>
    bufferFromRecordedBlob (controls s) = Some bufferData \<and>
    \<not> isRecordingInProgress (controls s) \<and> \<not> onlyRecording (props s) \<longrightarrow>
      canvasWidth (step g e s) = round (of_int clientWidth * devicePixelRatio s) \<and>
      canvasCurrentHeight (step g e s) =
        2 * Math_trunc (of_int clientHeight * devicePixelRatio s / 2) \<and>
      submitted (calls (step g e s)) =
        (if clientWidth = canvasCurrentWidth s \<and>
            canvasCurrentHeight (step g e s) = canvasCurrentHeight s
         then []
         else [Request bufferData (canvasCurrentHeight (step g e s)) (canvasWidth (step g e s))
                 (formattedBarWidth (step g e s)) (formattedGap (step g e s))]))"
proof -
  have a: "\<forall>bars \<in> set (drawn (step g e s)).
      bars = barsData (handle g e s) \<and> \<not> isResizing (step g e s)"
    using drawn_step [of _ g e s] by blast
  have b: "barsData (handle g e s) =
     (if e = WorkerResult then (case inFlight s of None \<Rightarrow> barsData s | Some r \<Rightarrow> g r)
      else barsData s)"
    by (rule handle_barsData)
  have c: "inFlight (step g e s) =
     (if submitted (calls (step g e s)) = [] then (if e = WorkerResult then None else inFlight s)
      else Some (last (submitted (calls (step g e s)))))"
    by (rule inFlight_step)
  have d: "barsData (step g e s) = g r \<and> drawn (step g e s) = [g r]"
    if "e = WorkerResult \<and> inFlight s = Some r \<and> g r \<noteq> [] \<and> g r \<noteq> barsData s \<and>
      \<not> onlyRecording (props s) \<and> canvasRef s \<and> \<not> isResizing s \<and> \<not> isCleared (controls s)"
  proof -
    define h where "h = render (s\<lparr>calls := [], barsData := g r, inFlight := None\<rparr>)"
    have st: "step g e s = commit s h"
      using that by (simp add: step_def workerResult_def h_def)
    have deps: "staticRenderDeps s \<noteq> staticRenderDeps h"
      using that by (auto simp add: h_def staticRenderDeps_def)
    have "barsData (commit s h) = g r"
      using that by (simp add: commit_keeps_barsData h_def)
    moreover have "drawn (commit s h) = [g r]"
      using that deps by (simp add: commit_draws) (simp add: h_def drawn_def)
    ultimately show ?thesis by (simp add: st)
  qed
  have f: "canvasWidth (step g e s) = round (of_int clientWidth * devicePixelRatio s) \<and>
      canvasCurrentHeight (step g e s) =
        2 * Math_trunc (of_int clientHeight * devicePixelRatio s / 2) \<and>
      submitted (calls (step g e s)) =
        (if clientWidth = canvasCurrentWidth s \<and>
            canvasCurrentHeight (step g e s) = canvasCurrentHeight s
         then []
         else [Request bufferData (canvasCurrentHeight (step g e s)) (canvasWidth (step g e s))
                 (formattedBarWidth (step g e s)) (formattedGap (step g e s))])"
    if "e = DebounceElapsed \<and> debouncePending s \<and> canvasRef s \<and>
      canvasContainerRef s = Some (clientWidth, clientHeight) \<and>
      bufferFromRecordedBlob (controls s) = Some bufferData \<and>
      \<not> isRecordingInProgress (controls s) \<and> \<not> onlyRecording (props s)"
  proof -
    define h where "h = render ((s\<lparr>calls := [], debouncePending := False\<rparr>)
      \<lparr>indexSpeedRef := formattedSpeed s, canvasCurrentWidth := clientWidth,
       canvasCurrentHeight := Math_trunc (of_int clientHeight * devicePixelRatio s / 2) * 2,
       canvasWidth := Math_round (of_int clientWidth * devicePixelRatio s),
       screenWidth := innerWidth s, isResizing := False\<rparr>)"
    have st: "step g e s = commit s h"
      using that by (simp add: step_def onResize_def formattedSpeed_def h_def)
    have deps: "extractionDeps s = extractionDeps h \<longleftrightarrow>
        clientWidth = canvasCurrentWidth s \<and> canvasCurrentHeight h = canvasCurrentHeight s"
      by (auto simp add: h_def extractionDeps_def)
    have fields: "canvasWidth h = round (of_int clientWidth * devicePixelRatio s)"
      "canvasCurrentHeight h = 2 * Math_trunc (of_int clientHeight * devicePixelRatio s / 2)"
      "submitted (calls h) = []" "canvasRef h"
      "bufferFromRecordedBlob (controls h) = Some bufferData"
      "\<not> isRecordingInProgress (controls h)" "\<not> onlyRecording (props h)"
      using that by (simp_all add: h_def Math_round_eq_round)
    have "submitted (calls (commit s h)) =
        (if clientWidth = canvasCurrentWidth s \<and> canvasCurrentHeight h = canvasCurrentHeight s
         then []
         else [Request bufferData (canvasCurrentHeight h) (canvasWidth h)
                 (formattedBarWidth h) (formattedGap h)])"
      using deps fields by (simp add: commit_submits)
    then show ?thesis using fields by (simp add: st)
  qed
  from a b c d f show ?thesis by blast
qed

theorem last_request_lands_and_stored_bars_drawn_witness:
  "submitted (calls narrowed) = [Request [1 / 2, - 1] 200 300 2 1] \<and>
   inFlight narrowed = Some (Request [1 / 2, - 1] 200 300 2 1) \<and>
   canvasWidth narrowed = 300 \<and>
   drawn narrowed = [barsData pendingResize] \<and>
   barsData refreshed = widthTag (Request [1 / 2, - 1] 200 300 2 1) \<and>
   drawn refreshed = [widthTag (Request [1 / 2, - 1] 200 300 2 1)] \<and>
   inFlight refreshed = None \<and>
   canvasWidth pendingRescale = 600 \<and> canvasWidth rescaled = 603 \<and>
   submitted (calls rescaled) = [] \<and> drawn rescaled = [[600]]"
proof -
  note n = last_request_lands_and_stored_bars_drawn
    [of widthTag DebounceElapsed pendingResize _ 300 200 "[1 / 2, - 1]", folded narrowed_def]
  note f = last_request_lands_and_stored_bars_drawn
    [of widthTag WorkerResult narrowed "Request [1 / 2, - 1] 200 300 2 1", folded refreshed_def]
  note c = last_request_lands_and_stored_bars_drawn
    [of widthTag DebounceElapsed pendingRescale _ 600 200 "[1 / 2, - 1]", folded rescaled_def]
  have pre_n: "DebounceElapsed = DebounceElapsed \<and> debouncePending pendingResize \<and>
    canvasRef pendingResize \<and> canvasContainerRef pendingResize = Some (300, 200) \<and>
    bufferFromRecordedBlob (controls pendingResize) = Some [1 / 2, - 1] \<and>
    \<not> isRecordingInProgress (controls pendingResize) \<and> \<not> onlyRecording (props pendingResize)"
    by (simp add: pendingResize_value recorded_def default_props_def)
  have geo_n: "canvasCurrentHeight narrowed = 200 \<and> canvasCurrentWidth pendingResize = 600 \<and>
    formattedBarWidth narrowed = 2 \<and> formattedGap narrowed = 1 \<and>
    devicePixelRatio pendingResize = 1"
    by (simp add: narrowed_value pendingResize_value formatted_defs)
  from n pre_n have "canvasWidth narrowed = round (of_int 300 * devicePixelRatio pendingResize) \<and>
      submitted (calls narrowed) =
        (if 300 = canvasCurrentWidth pendingResize \<and>
            canvasCurrentHeight narrowed = canvasCurrentHeight pendingResize
         then []
         else [Request [1 / 2, - 1] (canvasCurrentHeight narrowed) (canvasWidth narrowed)
                 (formattedBarWidth narrowed) (formattedGap narrowed)])"
    by blast
  with geo_n have n1: "canvasWidth narrowed = 300 \<and>
      submitted (calls narrowed) = [Request [1 / 2, - 1] 200 300 2 1]"
    by auto
  from n have "inFlight narrowed =
     (if submitted (calls narrowed) = []
      then (if DebounceElapsed = WorkerResult then None else inFlight pendingResize)
      else Some (last (submitted (calls narrowed))))"
    by blast
  with n1 have n2: "inFlight narrowed = Some (Request [1 / 2, - 1] 200 300 2 1)" by simp
  have n3: "drawn narrowed = [barsData pendingResize]"
    by (simp add: drawn_def narrowed_value pendingResize_value)
  have pre_f: "WorkerResult = WorkerResult \<and>
    inFlight narrowed = Some (Request [1 / 2, - 1] 200 300 2 1) \<and>
    widthTag (Request [1 / 2, - 1] 200 300 2 1) \<noteq> [] \<and>
    widthTag (Request [1 / 2, - 1] 200 300 2 1) \<noteq> barsData narrowed \<and>
    \<not> onlyRecording (props narrowed) \<and> canvasRef narrowed \<and> \<not> isResizing narrowed \<and>
    \<not> isCleared (controls narrowed)"
    by (simp add: narrowed_value widthTag_def recorded_def default_props_def)
  from f pre_f have f1: "barsData refreshed = widthTag (Request [1 / 2, - 1] 200 300 2 1) \<and>
      drawn refreshed = [widthTag (Request [1 / 2, - 1] 200 300 2 1)]"
    by blast
  have f2: "inFlight refreshed = None"
    by (simp add: refreshed_value)
  have pre_c: "DebounceElapsed = DebounceElapsed \<and> debouncePending pendingRescale \<and>
    canvasRef pendingRescale \<and> canvasContainerRef pendingRescale = Some (600, 200) \<and>
    bufferFromRecordedBlob (controls pendingRescale) = Some [1 / 2, - 1] \<and>
    \<not> isRecordingInProgress (controls pendingRescale) \<and>
    \<not> onlyRecording (props pendingRescale)"
    by (simp add: pendingRescale_value pendingResize_value recorded_def default_props_def)
  have geo_c: "canvasCurrentHeight rescaled = 200 \<and> canvasCurrentWidth pendingRescale = 600 \<and>
    canvasCurrentHeight pendingRescale = 200 \<and> canvasWidth pendingRescale = 600 \<and>
    canvasWidth rescaled = 603"
    by (simp add: rescaled_value shown_value pendingRescale_value pendingResize_value)
  from c pre_c have "submitted (calls rescaled) =
        (if 600 = canvasCurrentWidth pendingRescale \<and>
            canvasCurrentHeight rescaled = canvasCurrentHeight pendingRescale
         then []
         else [Request [1 / 2, - 1] (canvasCurrentHeight rescaled) (canvasWidth rescaled)
                 (formattedBarWidth rescaled) (formattedGap rescaled)])"
    by blast
  with geo_c have c1: "submitted (calls rescaled) = []" by simp
  have c2: "drawn rescaled = [[600]]"
    by (simp add: drawn_def rescaled_value shown_value)
  from n1 n2 n3 f1 f2 geo_c c1 c2 show ?thesis by simp
qed

subsection \<open>C4: the geometry of the surface\<close>

text \<open>
  Claim C4: when the geometry is recomputed (the container and the canvas are mounted),
  the new pixel width of the canvas is \<open>round (clientWidth * devicePixelRatio)\<close> and the
  new pixel height is an even integer: \<open>clientHeight * devicePixelRatio\<close> truncated towards
  zero to a multiple of 2, less than 2 away from it. The layout width becomes
  \<open>clientWidth\<close> and the resizing flag is cleared.
\<close>

theorem onResize_geometry:
  assumes "canvasContainerRef s = Some (clientWidth, clientHeight)" and "canvasRef s"
  shows "canvasWidth (onResize s) = round (of_int clientWidth * devicePixelRatio s) \<and>
    even (canvasCurrentHeight (onResize s)) \<and>
    canvasCurrentHeight (onResize s) =
      2 * Math_trunc (of_int clientHeight * devicePixelRatio s / 2) \<and>
    \<bar>of_int clientHeight * devicePixelRatio s - of_int (canvasCurrentHeight (onResize s))\<bar> < 2 \<and>
    \<bar>real_of_int (canvasCurrentHeight (onResize s))\<bar> \<le> \<bar>of_int clientHeight * devicePixelRatio s\<bar> \<and>
    canvasCurrentWidth (onResize s) = clientWidth \<and>
    \<not> isResizing (onResize s)"
  using assms Math_trunc_half_twice [of "of_int clientHeight * devicePixelRatio s"]
  by (simp add: onResize_def Let_def Math_round_eq_round)

theorem onResize_geometry_witness:
  "canvasWidth (onResize zoomed) = 902 \<and> canvasCurrentHeight (onResize zoomed) = 300 \<and>
   canvasCurrentWidth (onResize zoomed) = 601 \<and> \<not> isResizing (onResize zoomed)"
proof -
  have c: "canvasContainerRef zoomed = Some (601, 201)" and m: "canvasRef zoomed"
    and d: "devicePixelRatio zoomed = 3 / 2"
    by (simp_all add: zoomed_value desktop_value)
  from onResize_geometry [OF c m] show ?thesis
    by (simp add: d Math_trunc_def round_def)
qed

subsection \<open>C5: no bars during a resize\<close>

text \<open>
  Claim C5: while the resizing flag is set, the static renderer does nothing, so no
  commit hands bars to \<open>drawByBlob\<close>; the effect of lines 338--346 paints the background
  when the canvas is mounted, and nothing else. A step that starts with the flag set
  draws bars, or ends with the flag clear, only if it is the step in which the debounce
  timer elapses and \<open>onResize\<close> clears the flag.
\<close>

theorem no_bars_while_resizing:
  assumes "isResizing s"
  shows "staticRenderEffect s = s \<and>
    (\<forall>p. drawn (commit p s) = drawn s) \<and>
    calls (canvasSetupEffect s) =
      calls s @ (if canvasRef s then [InitialCanvasSetup (backgroundColor (props s))] else []) \<and>
    (\<forall>g e. drawn (step g e s) \<noteq> [] \<or> \<not> isResizing (step g e s) \<longrightarrow>
       e = DebounceElapsed \<and> \<not> isResizing (step g e s) \<and> debouncePending s \<and>
       canvasRef s \<and> canvasContainerRef s \<noteq> None)"
proof -
  have a: "staticRenderEffect s = s"
    using assms by (rule staticRenderEffect_resizing)
  have b: "\<forall>p. drawn (commit p s) = drawn s"
    using assms by (simp add: drawn_commit_resizing)
  have c: "calls (canvasSetupEffect s) =
      calls s @ (if canvasRef s then [InitialCanvasSetup (backgroundColor (props s))] else [])"
    using assms by (simp add: canvasSetupEffect_def)
  have d: "e = DebounceElapsed \<and> \<not> isResizing (step g e s) \<and> debouncePending s \<and>
      canvasRef s \<and> canvasContainerRef s \<noteq> None"
    if "drawn (step g e s) \<noteq> [] \<or> \<not> isResizing (step g e s)"
    for g :: "request \<Rightarrow> 'a list" and e
  proof -
    let ?h = "handle g e (s\<lparr>calls := []\<rparr>)"
    have flag: "isResizing (step g e s) = isResizing ?h"
      by (simp add: step_def Let_def)
    have clear: "\<not> isResizing ?h"
    proof
      assume r: "isResizing ?h"
      then have "drawn (step g e s) = []"
        by (simp add: step_def Let_def drawn_commit_resizing drawn_handle)
      with that r flag show False by simp
    qed
    then have "e = DebounceElapsed \<and> debouncePending s \<and> canvasRef s \<and>
        canvasContainerRef s \<noteq> None"
      using isResizing_cleared_by [of "s\<lparr>calls := []\<rparr>" g e] assms by simp
    with clear flag show ?thesis by simp
  qed
  from a b c d show ?thesis by blast
qed

theorem no_bars_while_resizing_witness:
  "isResizing pendingResize \<and> staticRenderEffect pendingResize = pendingResize \<and>
   drawn (commit shown pendingResize) = [] \<and>
   calls (canvasSetupEffect pendingResize) =
     [InitialCanvasSetup ''transparent'', InitialCanvasSetup ''transparent''] \<and>
   drawn narrowed \<noteq> [] \<and> \<not> isResizing narrowed \<and> debouncePending pendingResize"
proof -
  have r: "isResizing pendingResize" by (simp add: pendingResize_value)
  note t = no_bars_while_resizing [OF r]
  have "drawn narrowed \<noteq> []" by (simp add: drawn_def narrowed_value)
  with t have "\<not> isResizing narrowed \<and> debouncePending pendingResize"
    unfolding narrowed_def by blast
  moreover from t have "drawn (commit shown pendingResize) = []"
    by (simp add: drawn_def pendingResize_value)
  moreover from t have "calls (canvasSetupEffect pendingResize) =
     [InitialCanvasSetup ''transparent'', InitialCanvasSetup ''transparent'']"
    by (simp add: pendingResize_value default_props_def)
  moreover note r \<open>drawn narrowed \<noteq> []\<close>
  moreover from t have "staticRenderEffect pendingResize = pendingResize" by blast
  ultimately show ?thesis by simp
qed

subsection \<open>C6: the cleared flag\<close>

text \<open>
  Claim C6 says that when the cleared flag is set the static render step draws no bars
  and empties the stored bar sequence. The second part fails when the step stops at its
  guard: in \<open>clearedWhileResizing\<close> the recording was cleared while a resize was in
  progress, the effects of that render have run, and the bars are still stored; running
  the static render effect once more leaves them as well.
\<close>

theorem cleared_while_resizing_keeps_bars:
  "isCleared (controls clearedWhileResizing) \<and> isResizing clearedWhileResizing \<and>
   barsData clearedWhileResizing = [600] \<and>
   barsData (staticRenderEffect clearedWhileResizing) = [600]"
  by (simp add: clearedWhileResizing_value staticRenderEffect_def idle_def)

text \<open>
  Claim C6, amended: when the cleared flag is set, the static render step calls no
  helper, so it draws no bars; it empties the stored bar sequence when it passes its
  guard (not in only-recording mode, the canvas mounted, no resize in progress), and
  leaves the sequence as it is otherwise.
\<close>

theorem cleared_fast_path:
  assumes "isCleared (controls s)"
  shows "calls (staticRenderEffect s) = calls s \<and> drawn (staticRenderEffect s) = drawn s \<and>
    barsData (staticRenderEffect s) =
      (if onlyRecording (props s) \<or> \<not> canvasRef s \<or> isResizing s then barsData s else [])"
  using assms by (simp add: staticRenderEffect_def drawn_def)

theorem cleared_fast_path_witness:
  "barsData cleared = [600] \<and> barsData (staticRenderEffect cleared) = [] \<and>
   calls (staticRenderEffect cleared) = calls cleared"
proof -
  have c: "isCleared (controls cleared)" by (simp add: cleared_value idle_def)
  from cleared_fast_path [OF c] show ?thesis
    by (simp add: cleared_value shown_value default_props_def)
qed

subsection \<open>C7: the bar pitch\<close>

text \<open>
  Claim C7 says that the pitch handed to the live-stream renderer is the bar width plus
  the gap. It fails for the default props on a desktop window: the bar width is 2, the
  gap is 1, and the pitch, which \<open>drawByLiveStream\<close> receives as \<open>unit\<close>, is 4.
\<close>

theorem default_pitch_is_four:
  "formattedBarWidth desktop = 2 \<and> formattedGap desktop = 1 \<and> unit desktop = 4 \<and>
   unit desktop \<noteq> formattedBarWidth desktop + formattedGap desktop \<and>
   calls desktop =
     [DrawByLiveStream [] (unit desktop) False False ''transparent'' ''#FFFFFF'' ''#5e5e5e'' 2 5
        True False]"
  by (simp add: desktop_value formatted_defs)

text \<open>
  Claim C7, amended: the pitch is the bar width plus the gap times the bar width, that
  is, the bar width times one more than the gap, both truncated; the gap counts bar
  widths. It equals the bar width plus the gap exactly when the gap is 0 or the bar
  width is 1.
\<close>

theorem unit_pitch:
  "unit s = formattedBarWidth s * (1 + formattedGap s) \<and>
   (unit s = formattedBarWidth s + formattedGap s \<longleftrightarrow>
      formattedGap s = 0 \<or> formattedBarWidth s = 1)"
  by (auto simp add: unit_def algebra_simps)

theorem unit_pitch_witness:
  "unit phone = 2 \<and> formattedGap phone = 0 \<and>
   unit phone = formattedBarWidth phone + formattedGap phone"
proof -
  have g: "formattedGap phone = 0" and b: "formattedBarWidth phone = 2"
    by (simp_all add: phone_value formatted_defs)
  from unit_pitch [of phone] g b show ?thesis by simp
qed

subsection \<open>C8: the bar width on a narrow window\<close>

text \<open>
  Claim C8 says that the bar width is one pixel more than configured when the window is
  narrower than 768 and the gap is greater than 0. It fails for a gap between 0 and 1:
  on \<open>phone\<close> the window is 375 wide and the gap is one half, and the bar width is the
  configured 2, not 3.
\<close>

theorem fractional_gap_on_phone:
  "screenWidth phone < 768 \<and> 0 < gap (props phone) \<and> barWidth (props phone) = 2 \<and>
   formattedBarWidth phone = 2 \<and> Math_trunc (barWidth (props phone) + 1) = 3"
  by (simp add: phone_value formatted_defs)

text \<open>
  Claim C8, amended: when the recorded width of the window is below 768 and the truncated
  gap is greater than 0, that is, the gap is at least 1, the bar width is the configured
  bar width plus 1, truncated; otherwise it is the configured bar width, truncated.
\<close>

theorem formattedBarWidth_mobile:
  "formattedBarWidth s =
     (if screenWidth s < 768 \<and> 1 \<le> gap (props s) then Math_trunc (barWidth (props s) + 1)
      else Math_trunc (barWidth (props s)))"
  by (simp add: formattedBarWidth_def isMobile_def formattedGap_def Math_trunc_pos_iff)

theorem formattedBarWidth_mobile_witness:
  "formattedBarWidth (phone\<lparr>props := default_props\<rparr>) = 3 \<and> formattedBarWidth desktop = 2"
  using formattedBarWidth_mobile [of "phone\<lparr>props := default_props\<rparr>"]
    formattedBarWidth_mobile [of desktop]
  by (simp add: phone_value desktop_value default_props_def Math_trunc_def)

subsection \<open>C9: an empty stream\<close>

text \<open>
  Claim C9: on a mounted canvas, a tick whose amplitude data is empty calls
  \<open>drawByLiveStream\<close>, whatever the counter is, and leaves the counter at 1.
\<close>

theorem empty_stream_draws_every_tick:
  assumes "canvasRef s"
  shows "calls (tick [] s) =
      [DrawByLiveStream [] (unit s) (isRecordingInProgress (controls s))
         (isPausedRecording (controls s)) (backgroundColor (props s)) (mainBarColor (props s))
         (secondaryBarColor (props s)) (formattedBarWidth s) (rounded (props s))
         (animateCurrentPick (props s)) (fullscreen (props s))] \<and>
    indexSpeedRef (tick [] s) = 1"
  using assms
  by (simp add: tick_def liveStreamEffect_def Let_def unit_def formattedBarWidth_def
      formattedGap_def isMobile_def)

theorem empty_stream_draws_every_tick_witness:
  "indexSpeedRef shown = 1 \<and> formattedSpeed shown = 3 \<and>
   calls (tick [] shown) =
     [DrawByLiveStream [] 4 False False ''transparent'' ''#FFFFFF'' ''#5e5e5e'' 2 5 True False] \<and>
   indexSpeedRef (tick [] shown) = 1"
proof -
  have c: "canvasRef shown" by (simp add: shown_value)
  from empty_stream_draws_every_tick [OF c] show ?thesis
    by (simp add: shown_value recorded_def formatted_defs)
qed

subsection \<open>C10: the progress indicator\<close>

text \<open>
  Claim C10: the progress indicator is rendered exactly when it is enabled, a recording
  is available, no resize is in progress and the duration is not zero; when it is
  rendered, its left position is \<open>currentAudioTime / duration * canvasCurrentWidth\<close>, and
  neither division by the duration has a zero divisor.
\<close>

theorem progressIndicator_duration_nonzero:
  "(progressIndicator s \<noteq> None \<longleftrightarrow>
      isProgressIndicatorShown (props s) \<and> isAvailableRecordedAudio (controls s) \<and>
      \<not> isResizing s \<and> duration (controls s) \<noteq> 0) \<and>
   (\<forall>left timeOffset. progressIndicator s = Some (left, timeOffset) \<longrightarrow>
      duration (controls s) \<noteq> 0 \<and> \<not> isResizing s \<and>
      left = Some (currentAudioTime (controls s) / duration (controls s) *
                     of_int (canvasCurrentWidth s)) \<and>
      timeOffset \<noteq> Some None)"
  by (auto simp add: progressIndicator_def js_div_def js_mul_def split: if_splits)

theorem progressIndicator_duration_nonzero_witness:
  "progressIndicator shown = Some (Some 150, Some (Some 150)) \<and>
   progressIndicator pendingResize = None \<and> progressIndicator desktop = None"
proof -
  note t = progressIndicator_duration_nonzero
  have v: "progressIndicator shown = Some (Some 150, Some (Some 150))"
    by (simp add: progressIndicator_def shown_value recorded_def default_props_def js_div_def
        js_mul_def)
  with t [of shown] have "duration (controls shown) \<noteq> 0 \<and> \<not> isResizing shown \<and>
      Some 150 = Some (currentAudioTime (controls shown) / duration (controls shown) *
                         of_int (canvasCurrentWidth shown))"
    by blast
  moreover have "progressIndicator pendingResize = None"
  proof (rule ccontr)
    assume "progressIndicator pendingResize \<noteq> None"
    with t [of pendingResize] have "\<not> isResizing pendingResize" by blast
    then show False by (simp add: pendingResize_value)
  qed
  moreover have "progressIndicator desktop = None"
  proof (rule ccontr)
    assume "progressIndicator desktop \<noteq> None"
    with t [of desktop] have "duration (controls desktop) \<noteq> 0" by blast
    then show False by (simp add: desktop_value idle_def)
  qed
  ultimately show ?thesis using v by simp
qed

end
